theory Spec2Isabelle
  imports Complex_Main "HOL-Library.Word"
begin

section \<open>Python values used by NWB\_convert.py\<close>

text \<open>
  Exceptions are values: every function of the source that can raise returns
  \<open>error + 'a\<close>, with \<open>Inl\<close> for the exception that escapes.
\<close>

datatype error = ZeroDivisionError | IndexError | ValueError | NameError | AttributeError

text \<open>
  A Python \<open>float\<close> is modelled by the exact number it denotes, plus the three
  special values. Rounding to binary64 is outside the model: all arithmetic below is
  exact, which agrees with the program wherever the operands and results are
  representable (integers below \<open>2^53\<close> and their halves, as in every wavelength
  code of the source).
\<close>

datatype pyfloat = Fin real | PInf | NInf | NaN

fun fl_neg :: "pyfloat \<Rightarrow> pyfloat" where
  "fl_neg (Fin x) = Fin (- x)"
| "fl_neg PInf = NInf"
| "fl_neg NInf = PInf"
| "fl_neg NaN = NaN"

fun fl_add :: "pyfloat \<Rightarrow> pyfloat \<Rightarrow> pyfloat" where
  "fl_add NaN b = NaN"
| "fl_add a NaN = NaN"
| "fl_add (Fin x) (Fin y) = Fin (x + y)"
| "fl_add PInf NInf = NaN"
| "fl_add NInf PInf = NaN"
| "fl_add PInf b = PInf"
| "fl_add a PInf = PInf"
| "fl_add NInf b = NInf"
| "fl_add a NInf = NInf"

definition fl_sub :: "pyfloat \<Rightarrow> pyfloat \<Rightarrow> pyfloat" where
  "fl_sub a b = fl_add a (fl_neg b)"

text \<open>Division by the literal \<open>2\<close> (the only division of the channel parser).\<close>

fun fl_half :: "pyfloat \<Rightarrow> pyfloat" where
  "fl_half (Fin x) = Fin (x / 2)"
| "fl_half PInf = PInf"
| "fl_half NInf = NInf"
| "fl_half NaN = NaN"

subsection \<open>Strings\<close>

text \<open>
  \<open>str.split(sep)\<close> with a one-character separator: one token more than there are
  separators, empty tokens included.
\<close>

fun split_on :: "char \<Rightarrow> string \<Rightarrow> string list" where
  "split_on sep [] = [[]]"
| "split_on sep (c # cs) =
     (if c = sep then [] # split_on sep cs
      else (c # hd (split_on sep cs)) # tl (split_on sep cs))"

text \<open>Indexing a list with a non-negative index; out of range raises \<open>IndexError\<close>.\<close>

definition py_index :: "'a list \<Rightarrow> nat \<Rightarrow> error + 'a" where
  "py_index xs i = (if i < length xs then Inr (xs ! i) else Inl IndexError)"

text \<open>
  The characters \<open>str.strip\<close>, \<open>int\<close> and \<open>float\<close> treat as white space, among
  the ASCII characters: TAB, LF, VT, FF, CR, the four separators 28 to 31 and the space.
  Strings are byte strings here; characters beyond ASCII are outside the model.
\<close>

definition is_space :: "char \<Rightarrow> bool" where
  "is_space c = (of_char c \<in> {9, 10, 11, 12, 13, 28, 29, 30, 31, 32 :: nat})"

definition strip :: "string \<Rightarrow> string" where
  "strip s = rev (dropWhile is_space (rev (dropWhile is_space s)))"

definition is_digit :: "char \<Rightarrow> bool" where
  "is_digit c = (48 \<le> (of_char c :: nat) \<and> (of_char c :: nat) \<le> 57)"

definition digit_val :: "char \<Rightarrow> nat" where
  "digit_val c = of_char c - 48"

definition nat_of_digits :: "string \<Rightarrow> nat" where
  "nat_of_digits s = foldl (\<lambda>a c. 10 * a + digit_val c) 0 s"

text \<open>
  Numeric literals may group digits with single underscores: an underscore is accepted
  only directly after a digit and directly before a digit. The first argument is the
  previous character.
\<close>

fun underscores_ok :: "char option \<Rightarrow> string \<Rightarrow> bool" where
  "underscores_ok prev [] = True"
| "underscores_ok prev (c # cs) =
     (if c = CHR ''_''
      then (case prev of None \<Rightarrow> False | Some p \<Rightarrow> is_digit p) \<and>
           (case cs of [] \<Rightarrow> False | d # ds \<Rightarrow> is_digit d) \<and>
           underscores_ok (Some c) cs
      else underscores_ok (Some c) cs)"

definition lower :: "char \<Rightarrow> char" where
  "lower c = (if 65 \<le> (of_char c :: nat) \<and> (of_char c :: nat) \<le> 90
              then char_of (of_char c + 32 :: nat) else c)"

text \<open>
  The unsigned decimal part of a float literal: digits, an optional point and more
  digits (at least one digit in all), and an optional exponent \<open>e\<close> or \<open>E\<close> with
  an optional sign and at least one digit. Anything left over rejects the literal.
\<close>

definition parse_decimal :: "string \<Rightarrow> pyfloat option" where
  "parse_decimal s =
     (let ip = takeWhile is_digit s;
          r1 = dropWhile is_digit s;
          fp = (case r1 of [] \<Rightarrow> [] | c # t \<Rightarrow> if c = CHR ''.'' then takeWhile is_digit t else []);
          r2 = (case r1 of [] \<Rightarrow> [] | c # t \<Rightarrow> if c = CHR ''.'' then dropWhile is_digit t else r1);
          mant = real (nat_of_digits (ip @ fp)) / 10 ^ length fp
      in if ip = [] \<and> fp = [] then None
         else (case r2 of
                 [] \<Rightarrow> Some (Fin mant)
               | c # t \<Rightarrow>
                   if c = CHR ''e'' \<or> c = CHR ''E'' then
                     (let neg = (case t of [] \<Rightarrow> False | d # u \<Rightarrow> d = CHR ''-'');
                          ds = (case t of [] \<Rightarrow> []
                                | d # u \<Rightarrow> if d = CHR ''+'' \<or> d = CHR ''-'' then u else t)
                      in if ds \<noteq> [] \<and> list_all is_digit ds
                         then Some (Fin (if neg then mant / 10 ^ nat_of_digits ds
                                         else mant * 10 ^ nat_of_digits ds))
                         else None)
                   else None))"

definition parse_abs :: "string \<Rightarrow> pyfloat option" where
  "parse_abs s =
     (let l = map lower s
      in if l = ''inf'' \<or> l = ''infinity'' then Some PInf
         else if l = ''nan'' then Some NaN
         else parse_decimal s)"

text \<open>
  The builtin \<open>float(s)\<close> on a string: white space is stripped at both ends,
  underscores are checked and removed, an optional sign is read, and the rest is
  \<open>inf\<close>, \<open>infinity\<close> or \<open>nan\<close> in any case, or a decimal literal. Every other
  string raises \<open>ValueError\<close>.
\<close>

definition py_float :: "string \<Rightarrow> error + pyfloat" where
  "py_float s =
     (let t = strip s
      in if \<not> underscores_ok None t then Inl ValueError
         else
           (let u = filter (\<lambda>c. c \<noteq> CHR ''_'') t;
                neg = (case u of [] \<Rightarrow> False | c # r \<Rightarrow> c = CHR ''-'');
                b = (case u of [] \<Rightarrow> []
                     | c # r \<Rightarrow> if c = CHR ''+'' \<or> c = CHR ''-'' then r else u)
            in case parse_abs b of
                 None \<Rightarrow> Inl ValueError
               | Some v \<Rightarrow> Inr (if neg then fl_neg v else v)))"

section \<open>The channel parser and the imaging volume (\<open>create_im_vol\<close>)\<close>

record device =
  dev_name :: string
  dev_description :: string
  dev_manufacturer :: string

record optical_channel_plus =
  oc_name :: string
  oc_description :: string
  excitation_lambda :: pyfloat
  excitation_range :: "pyfloat list"
  emission_range :: "pyfloat list"
  emission_lambda :: pyfloat

record imaging_volume =
  iv_name :: string
  optical_channel_plus :: "optical_channel_plus list"
  order_optical_channels :: "string list"
  iv_description :: string
  iv_device :: device
  iv_location :: string
  grid_spacing :: "real list"
  grid_spacing_unit :: string
  origin_coords :: "real list"
  origin_coords_unit :: string
  reference_frame :: string

text \<open>
  The body of the loop of \<open>create_im_vol\<close> for one channel
  \<open>(fluor, des, wave)\<close>: the three \<open>float(wave.split('-')[k])\<close> in the order of the
  source (the third on the token without its last character, \<open>[:-1]\<close>), then the
  channel record.
\<close>

definition parse_channel :: "string \<times> string \<times> string \<Rightarrow> error + optical_channel_plus" where
  "parse_channel ch =
     (case ch of (fluor, des, wave) \<Rightarrow>
        (case py_index (split_on CHR ''-'' wave) 0 of Inl e \<Rightarrow> Inl e | Inr t0 \<Rightarrow>
         case py_float t0 of Inl e \<Rightarrow> Inl e | Inr excite \<Rightarrow>
         case py_index (split_on CHR ''-'' wave) 1 of Inl e \<Rightarrow> Inl e | Inr t1 \<Rightarrow>
         case py_float t1 of Inl e \<Rightarrow> Inl e | Inr emiss_mid \<Rightarrow>
         case py_index (split_on CHR ''-'' wave) 2 of Inl e \<Rightarrow> Inl e | Inr t2 \<Rightarrow>
         case py_float (butlast t2) of Inl e \<Rightarrow> Inl e | Inr emiss_range \<Rightarrow>
           Inr \<lparr> oc_name = fluor,
                 oc_description = des,
                 excitation_lambda = excite,
                 excitation_range = [fl_sub excite (Fin (3/2)), fl_add excite (Fin (3/2))],
                 emission_range = [fl_sub emiss_mid (fl_half emiss_range),
                                   fl_add emiss_mid (fl_half emiss_range)],
                 emission_lambda = emiss_mid \<rparr>))"

text \<open>The loop over the channels: the first channel that raises aborts the call.\<close>

fun parse_channels :: "(string \<times> string \<times> string) list \<Rightarrow> error + optical_channel_plus list" where
  "parse_channels [] = Inr []"
| "parse_channels (ch # chs) =
     (case parse_channel ch of Inl e \<Rightarrow> Inl e
      | Inr oc \<Rightarrow> (case parse_channels chs of Inl e \<Rightarrow> Inl e | Inr ocs \<Rightarrow> Inr (oc # ocs)))"

text \<open>
  \<open>create_im_vol\<close> returns the imaging volume and the channel references (the
  wavelength codes in channel order); the volume is also added to the file, which the
  callers model by appending it to the file's imaging planes.
\<close>

definition create_im_vol ::
  "string \<Rightarrow> device \<Rightarrow> string \<Rightarrow> (string \<times> string \<times> string) list \<Rightarrow> string \<Rightarrow> real list \<Rightarrow>
   string \<Rightarrow> real list \<Rightarrow> string \<Rightarrow> string \<Rightarrow> error + (imaging_volume \<times> string list)" where
  "create_im_vol name dev description channels location gs gs_unit origin origin_unit frame =
     (case parse_channels channels of
        Inl e \<Rightarrow> Inl e
      | Inr OptChannels \<Rightarrow>
          (let OptChanRefs = map (\<lambda>ch. snd (snd ch)) channels
           in Inr (\<lparr> iv_name = name,
                      optical_channel_plus = OptChannels,
                      order_optical_channels = OptChanRefs,
                      iv_description = description,
                      iv_device = dev,
                      iv_location = location,
                      grid_spacing = gs,
                      grid_spacing_unit = gs_unit,
                      origin_coords = origin,
                      origin_coords_unit = origin_unit,
                      reference_frame = frame \<rparr>, OptChanRefs)))"

section \<open>The volumetric segmentation builder (\<open>create_vol_seg_centers\<close>)\<close>

text \<open>
  A coordinate is the number a finite float or an integer denotes. \<open>np.uint\<close> is the
  64-bit unsigned integer of the platform of the source; the conversion drops the
  fractional part. C defines it for \<open>0 \<le> x < 2^64\<close> only, and the statements below
  that speak of the converted number keep to that range; the definition wraps outside it.
\<close>

definition np_uint :: "real \<Rightarrow> 64 word" where
  "np_uint x = word_of_int (if 0 \<le> x then \<lfloor>x\<rfloor> else \<lceil>x\<rceil>)"

record voxel =
  vx :: "64 word"
  vy :: "64 word"
  vz :: "64 word"
  weight :: nat

text \<open>
  The \<open>positions\<close> argument is a numpy array: two-dimensional (a list of rows) in the
  intended use, one-dimensional when a caller's \<open>np.squeeze\<close> has removed the row
  axis.
\<close>

datatype positions = Arr1 "real list" | Arr2 "real list list"

text \<open>
  The segmentation table: one voxel mask per ROI in the order of the \<open>add_roi\<close> calls,
  and the optional column \<open>ID_labels\<close>. The imaging volume and the reference images
  are references the builder only stores.
\<close>

record ('v, 'r) plane_segmentation =
  ps_name :: string
  ps_description :: string
  imaging_plane :: 'v
  reference_images :: "'r option"
  voxel_mask :: "voxel list list"
  ID_labels :: "string list option"

text \<open>
  The loop \<open>for i in range(positions.shape[0])\<close> over the rows of a two-dimensional
  array, threading the table's ROI list: \<open>positions[i,k]\<close> raises \<open>IndexError\<close> when
  the row has no column \<open>k\<close>, and \<open>add_roi\<close> appends one row to the table.
\<close>

fun add_rois :: "real list list \<Rightarrow> voxel list list \<Rightarrow> error + voxel list list" where
  "add_rois [] rois = Inr rois"
| "add_rois (row # rows) rois =
     (case py_index row 0 of Inl e \<Rightarrow> Inl e | Inr x \<Rightarrow>
      case py_index row 1 of Inl e \<Rightarrow> Inl e | Inr y \<Rightarrow>
      case py_index row 2 of Inl e \<Rightarrow> Inl e | Inr z \<Rightarrow>
        add_rois rows
          (rois @ [[\<lparr> vx = np_uint x, vy = np_uint y, vz = np_uint z, weight = 1 \<rparr>]]))"

text \<open>
  On a one-dimensional array \<open>positions.shape[0]\<close> is its length and the first
  \<open>positions[i,0]\<close> raises \<open>IndexError\<close> (too many indices); an empty one runs no
  iteration.
\<close>

definition roi_loop :: "positions \<Rightarrow> error + voxel list list" where
  "roi_loop p = (case p of
       Arr1 xs \<Rightarrow> if xs = [] then Inr [] else Inl IndexError
     | Arr2 rows \<Rightarrow> add_rois rows [])"

text \<open>
  After the loop, \<open>labels is None\<close> only rebinds the local variable \<open>labels\<close>;
  the column \<open>ID_labels\<close> is added in the \<open>else\<close> branch alone. The column is stored
  as given: what the table library checks about it is not part of this model.
\<close>

definition create_vol_seg_centers ::
  "string \<Rightarrow> string \<Rightarrow> 'v \<Rightarrow> positions \<Rightarrow> string list option \<Rightarrow> 'r option \<Rightarrow>
   error + ('v, 'r) plane_segmentation" where
  "create_vol_seg_centers name description ImagingVolume pos labels ref_images =
     (case roi_loop pos of
        Inl e \<Rightarrow> Inl e
      | Inr rois \<Rightarrow>
          Inr \<lparr> ps_name = name,
                ps_description = description,
                imaging_plane = ImagingVolume,
                reference_images = ref_images,
                voxel_mask = rois,
                ID_labels = (case labels of None \<Rightarrow> None | Some ls \<Rightarrow> Some ls) \<rparr>)"

section \<open>The chunked volume reader (\<open>iter_calc_tiff\<close>)\<close>

text \<open>
  A page of the TIFF file is a two-dimensional array of 16-bit samples: its shape
  \<open>(rows, columns)\<close> and its samples by row and column. The file is its list of pages.
\<close>

record page =
  p_shape :: "nat \<times> nat"
  p_px :: "nat \<Rightarrow> nat \<Rightarrow> 16 word"

type_synonym tiff = "page list"

text \<open>The float array \<open>tpoint\<close> and the chunk cast to \<open>uint16\<close>.\<close>

record tpoint =
  t_shape :: "nat \<times> nat \<times> nat"
  t_at :: "nat \<Rightarrow> nat \<Rightarrow> nat \<Rightarrow> real"

record chunk =
  c_shape :: "nat \<times> nat \<times> nat"
  c_vox :: "nat \<Rightarrow> nat \<Rightarrow> nat \<Rightarrow> 16 word"

definition np_zeros :: "nat \<times> nat \<times> nat \<Rightarrow> tpoint" where
  "np_zeros sh = \<lparr> t_shape = sh, t_at = (\<lambda>x y z. 0) \<rparr>"

text \<open>
  \<open>tpoint[:,:,j] = np.transpose(page.asarray())\<close>: the transposed page has shape
  \<open>(columns, rows)\<close>; numpy broadcasts it into the \<open>(X, Y)\<close> slice when each of its
  extents is the slice's or 1, and raises \<open>ValueError\<close> otherwise.
\<close>

definition assign_plane :: "tpoint \<Rightarrow> nat \<Rightarrow> page \<Rightarrow> error + tpoint" where
  "assign_plane tp j pg =
     (case t_shape tp of (X, Y, Z) \<Rightarrow>
        (case p_shape pg of (r, c) \<Rightarrow>
           if \<not> j < Z then Inl IndexError
           else if (c = X \<or> c = 1) \<and> (r = Y \<or> r = 1)
           then Inr (tp \<lparr> t_at := (\<lambda>x y z.
                     if z = j then real (unat (p_px pg (if r = 1 then 0 else y) (if c = 1 then 0 else x)))
                     else t_at tp x y z) \<rparr>)
           else Inl ValueError))"

text \<open>The inner loop \<open>for j in range(numZ)\<close> of timepoint \<open>i\<close>, over the remaining \<open>j\<close>.\<close>

fun fill_planes :: "tiff \<Rightarrow> nat \<Rightarrow> nat \<Rightarrow> nat list \<Rightarrow> tpoint \<Rightarrow> error + tpoint" where
  "fill_planes tif i numZ [] tp = Inr tp"
| "fill_planes tif i numZ (j # js) tp =
     (case py_index tif (i * numZ + j) of Inl e \<Rightarrow> Inl e | Inr pg \<Rightarrow>
      case assign_plane tp j pg of Inl e \<Rightarrow> Inl e | Inr tp' \<Rightarrow>
        fill_planes tif i numZ js tp')"

text \<open>\<open>tpoint.astype('uint16')\<close>.\<close>

definition astype_uint16 :: "tpoint \<Rightarrow> chunk" where
  "astype_uint16 tp =
     \<lparr> c_shape = t_shape tp, c_vox = (\<lambda>x y z. word_of_int \<lfloor>t_at tp x y z\<rfloor>) \<rparr>"

text \<open>One pass of the body of \<open>for i in range(timepoints)\<close> up to the \<open>yield\<close>.\<close>

definition build_chunk :: "tiff \<Rightarrow> nat \<Rightarrow> nat \<times> nat \<Rightarrow> nat \<Rightarrow> error + chunk" where
  "build_chunk tif numZ pageshape i =
     (case fill_planes tif i numZ [0..<numZ] (np_zeros (snd pageshape, fst pageshape, numZ)) of
        Inl e \<Rightarrow> Inl e
      | Inr tp \<Rightarrow> Inr (astype_uint16 tp))"

text \<open>
  \<open>timepoints = int(pages/numZ)\<close>: true division, then truncation towards zero
  (for page counts below \<open>2^53\<close>, where the float quotient does not round up to the
  next integer). \<open>numZ = 0\<close> raises \<open>ZeroDivisionError\<close>.
\<close>

definition timepoints :: "tiff \<Rightarrow> int \<Rightarrow> error + int" where
  "timepoints tif numZ =
     (if numZ = 0 then Inl ZeroDivisionError
      else if 0 < numZ then Inr (int (length tif) div numZ)
      else Inr (- (int (length tif) div (- numZ))))"

text \<open>
  The generator as a state machine. Nothing of the body runs before the first
  \<open>next\<close>; a generator that has yielded is suspended at the \<open>yield\<close> of iteration
  \<open>i\<close>. \<open>tif_open\<close> records the file handle of the generator's \<open>TiffFile\<close>: opened
  by the first statement, closed by \<open>tif.close()\<close>, the statement after the loop.
  (What the garbage collector does to an unreferenced handle is not modelled.)
\<close>

datatype gen_pc = NotStarted | Suspended nat | Finished

record gen =
  pc :: gen_pc
  tif_open :: bool

datatype 'a gen_result = Yield 'a | StopIteration | Raise error

definition gen_init :: gen where
  "gen_init = \<lparr> pc = NotStarted, tif_open = False \<rparr>"

text \<open>
  The loop head for iteration \<open>i\<close> with the handle open: another chunk, an exception
  from the body (the generator ends where it is raised), or the end of the loop followed
  by \<open>tif.close()\<close> and \<open>return\<close>.
\<close>

definition loop_from :: "tiff \<Rightarrow> int \<Rightarrow> nat \<Rightarrow> gen \<times> chunk gen_result" where
  "loop_from tif numZ i =
     (case timepoints tif numZ of
        Inl e \<Rightarrow> (\<lparr> pc = Finished, tif_open = True \<rparr>, Raise e)
      | Inr T \<Rightarrow>
          (case py_index tif 0 of
             Inl e \<Rightarrow> (\<lparr> pc = Finished, tif_open = True \<rparr>, Raise e)
           | Inr p0 \<Rightarrow>
               if int i < T then
                 (case build_chunk tif (nat numZ) (p_shape p0) i of
                    Inl e \<Rightarrow> (\<lparr> pc = Finished, tif_open = True \<rparr>, Raise e)
                  | Inr c \<Rightarrow> (\<lparr> pc = Suspended i, tif_open = True \<rparr>, Yield c))
               else (\<lparr> pc = Finished, tif_open = False \<rparr>, StopIteration)))"

text \<open>\<open>next(g)\<close> on the generator of \<open>iter_calc_tiff(filename, numZ)\<close>.\<close>

definition gen_next :: "tiff \<Rightarrow> int \<Rightarrow> gen \<Rightarrow> gen \<times> chunk gen_result" where
  "gen_next tif numZ g =
     (case pc g of
        Finished \<Rightarrow> (g, StopIteration)
      | NotStarted \<Rightarrow> loop_from tif numZ 0
      | Suspended i \<Rightarrow> loop_from tif numZ (Suc i))"

text \<open>
  \<open>g.close()\<close>, the consumer abandoning the stream: \<open>GeneratorExit\<close> is raised at
  the \<open>yield\<close>, nothing handles it, and the statements after the loop do not run.
\<close>

definition gen_close :: "gen \<Rightarrow> gen" where
  "gen_close g = g \<lparr> pc := Finished \<rparr>"

text \<open>
  The number of \<open>next\<close> calls that can still yield; it decreases with every chunk.
\<close>

definition remaining :: "tiff \<Rightarrow> int \<Rightarrow> gen \<Rightarrow> nat" where
  "remaining tif numZ g =
     (case timepoints tif numZ of
        Inl e \<Rightarrow> 0
      | Inr T \<Rightarrow> (case pc g of
                    NotStarted \<Rightarrow> nat T + 1
                  | Suspended i \<Rightarrow> nat T - i
                  | Finished \<Rightarrow> 0))"

text \<open>
  A consumer that calls \<open>next\<close> until the stream ends: the chunks it received, the
  exception that ended the stream if one did, and the generator it leaves behind.
\<close>

function collect :: "tiff \<Rightarrow> int \<Rightarrow> gen \<Rightarrow> chunk list \<times> error option \<times> gen" where
  "collect tif numZ g =
     (case gen_next tif numZ g of
        (g', Yield c) \<Rightarrow> (case collect tif numZ g' of (cs, r) \<Rightarrow> (c # cs, r))
      | (g', StopIteration) \<Rightarrow> ([], None, g')
      | (g', Raise e) \<Rightarrow> ([], Some e, g'))"
  by pat_completeness auto
termination
proof (relation "measure (\<lambda>(tif, numZ, g). remaining tif numZ g)")
  show "wf (measure (\<lambda>(tif, numZ, g). remaining tif numZ g))"
    by simp
next
  fix tif :: tiff and numZ :: int and g g' :: gen and r :: "chunk gen_result" and c :: chunk
  assume "(g', r) = gen_next tif numZ g" and "r = Yield c"
  then have y: "gen_next tif numZ g = (g', Yield c)"
    by simp
  then have "remaining tif numZ g' < remaining tif numZ g"
    by (auto simp: gen_next_def loop_from_def remaining_def
             split: gen_pc.splits sum.splits if_splits)
  then show "((tif, numZ, g'), (tif, numZ, g)) \<in> measure (\<lambda>(tif, numZ, g). remaining tif numZ g)"
    by simp
qed

declare collect.simps [simp del]

text \<open>\<open>iter_calc_tiff(filename, numZ)\<close> consumed to its end from a fresh generator.\<close>

definition iter_calc_tiff :: "tiff \<Rightarrow> int \<Rightarrow> chunk list \<times> error option \<times> gen" where
  "iter_calc_tiff tif numZ = collect tif numZ gen_init"

text \<open>The index of the loop iteration the next \<open>next\<close> call enters.\<close>

definition next_index :: "gen \<Rightarrow> nat" where
  "next_index g = (case pc g of NotStarted \<Rightarrow> 0 | Suspended i \<Rightarrow> Suc i | Finished \<Rightarrow> 0)"

text \<open>A page of \<open>r\<close> rows and \<open>c\<close> columns whose samples are all zero (a test image).\<close>

definition blank_page :: "nat \<Rightarrow> nat \<Rightarrow> page" where
  "blank_page r c = \<lparr> p_shape = (r, c), p_px = (\<lambda>i j. 0) \<rparr>"

section \<open>The per-acquisition pipeline (\<open>process_NP_FOCO_Ray\<close>)\<close>

text \<open>
  Sequencing of statements that can raise: the first exception ends the function.
\<close>

definition and_then :: "error + 'a \<Rightarrow> ('a \<Rightarrow> error + 'b) \<Rightarrow> error + 'b" where
  "and_then m f = (case m of Inl e \<Rightarrow> Inl e | Inr x \<Rightarrow> f x)"

subsection \<open>The session start time\<close>

text \<open>
  The builtin \<open>int(s)\<close> on a string, base 10: white space stripped, an optional sign,
  digits with single underscores between them.
\<close>

definition py_int :: "string \<Rightarrow> error + int" where
  "py_int s =
     (let t = strip s;
          neg = (case t of [] \<Rightarrow> False | c # r \<Rightarrow> c = CHR ''-'');
          b = (case t of [] \<Rightarrow> [] | c # r \<Rightarrow> if c = CHR ''+'' \<or> c = CHR ''-'' then r else t);
          ds = filter (\<lambda>c. c \<noteq> CHR ''_'') b
      in if underscores_ok None b \<and> ds \<noteq> [] \<and> list_all is_digit ds
         then Inr (if neg then - int (nat_of_digits ds) else int (nat_of_digits ds))
         else Inl ValueError)"

text \<open>The slice \<open>s[a:b]\<close> for \<open>0 \<le> a \<le> b\<close>, and \<open>s[a:]\<close>.\<close>

definition slice :: "string \<Rightarrow> nat \<Rightarrow> nat \<Rightarrow> string" where
  "slice s a b = take (b - a) (drop a s)"

record datetime =
  dt_year :: int
  dt_month :: int
  dt_day :: int
  dt_hour :: int
  dt_minute :: int
  dt_second :: int

definition is_leap :: "int \<Rightarrow> bool" where
  "is_leap y = (y mod 4 = 0 \<and> (y mod 100 \<noteq> 0 \<or> y mod 400 = 0))"

definition days_in_month :: "int \<Rightarrow> int \<Rightarrow> int" where
  "days_in_month y m =
     (if m = 2 then (if is_leap y then 29 else 28)
      else if m = 4 \<or> m = 6 \<or> m = 9 \<or> m = 11 then 30 else 31)"

text \<open>The constructor \<open>datetime(y, m, d, H, M, S)\<close>: a field out of range raises \<open>ValueError\<close>.\<close>

definition mk_datetime :: "int \<Rightarrow> int \<Rightarrow> int \<Rightarrow> int \<Rightarrow> int \<Rightarrow> int \<Rightarrow> error + datetime" where
  "mk_datetime y m d H M S =
     (if 1 \<le> y \<and> y \<le> 9999 \<and> 1 \<le> m \<and> m \<le> 12 \<and> 1 \<le> d \<and> d \<le> days_in_month y m
         \<and> 0 \<le> H \<and> H \<le> 23 \<and> 0 \<le> M \<and> M \<le> 59 \<and> 0 \<le> S \<and> S \<le> 59
      then Inr \<lparr> dt_year = y, dt_month = m, dt_day = d, dt_hour = H, dt_minute = M, dt_second = S \<rparr>
      else Inl ValueError)"

text \<open>Line 219: the session start time read from the identifier \<open>YYYYMMDD-HH-MM-SS\<close>.\<close>

definition session_start :: "string \<Rightarrow> error + datetime" where
  "session_start identifier =
     and_then (py_int (slice identifier 0 4)) (\<lambda>y.
     and_then (py_int (slice identifier 4 6)) (\<lambda>m.
     and_then (py_int (slice identifier 6 8)) (\<lambda>d.
     and_then (py_int (slice identifier 9 11)) (\<lambda>H.
     and_then (py_int (slice identifier 12 14)) (\<lambda>M.
     and_then (py_int (drop 15 identifier)) (\<lambda>S.
       mk_datetime y m d H M S))))))"

text \<open>Line 229: the date of birth, the same day at midnight.\<close>

definition birth_date :: "string \<Rightarrow> error + datetime" where
  "birth_date identifier =
     and_then (py_int (slice identifier 0 4)) (\<lambda>y.
     and_then (py_int (slice identifier 4 6)) (\<lambda>m.
     and_then (py_int (slice identifier 6 8)) (\<lambda>d.
       mk_datetime y m d 0 0 0)))"

subsection \<open>The global \<open>folder\<close> and the tables chosen by it\<close>

text \<open>
  \<open>a < b\<close> on strings: lexicographic by character code.
\<close>

fun py_str_less :: "string \<Rightarrow> string \<Rightarrow> bool" where
  "py_str_less [] [] = False"
| "py_str_less [] (b # bs) = True"
| "py_str_less (a # as) [] = False"
| "py_str_less (a # as) (b # bs) =
     (if (of_char a :: nat) < of_char b then True
      else if (of_char b :: nat) < of_char a then False
      else py_str_less as bs)"

text \<open>
  The module has no assignment to \<open>folder\<close> outside the driver's loop, so inside
  \<open>process_NP_FOCO_Ray\<close> the name is the module global: \<open>None\<close> when it is unbound,
  and reading it then raises \<open>NameError\<close>.
\<close>

definition read_global :: "string option \<Rightarrow> error + string" where
  "read_global g = (case g of None \<Rightarrow> Inl NameError | Some v \<Rightarrow> Inr v)"

definition channels_early :: "(string \<times> string \<times> string) list" where
  "channels_early =
     [(''mTagBFP2'', ''Chroma ET 460/50'', ''405-460-50m''),
      (''CyOFP1'', ''Chroma ET 605/70'', ''488-605-70m''),
      (''GFP-GCaMP'', ''Chroma ET 525/50'', ''488-525-50m''),
      (''mNeptune 2.5'', ''Chroma ET 700/75'', ''561-700-75m''),
      (''Tag RFP-T'', ''Chroma ET 605/70'', ''561-605-70m''),
      (''mNeptune 2.5-far red'', ''Chroma ET 700/75'', ''639-700-75m'')]"

definition channels_late :: "(string \<times> string \<times> string) list" where
  "channels_late =
     [(''mTagBFP2'', ''Chroma ET 460/50'', ''405-460-50m''),
      (''CyOFP1'', ''Chroma ET 605/70'', ''488-605-70m''),
      (''CyOFP1-high filter'', ''Chroma ET 700/75'', ''488-700-75m''),
      (''GFP-GCaMP'', ''Chroma ET 525/50'', ''488-525-50m''),
      (''mNeptune 2.5'', ''Chroma ET 700/75'', ''561-700-75m''),
      (''Tag RFP-T'', ''Chroma ET 605/70'', ''561-605-70m''),
      (''mNeptune 2.5-far red'', ''Chroma ET 700/75'', ''639-700-75m'')]"

text \<open>Lines 247 to 252: the channel table and the RGBW selection.\<close>

definition select_channels :: "string option \<Rightarrow> error + ((string \<times> string \<times> string) list \<times> nat list)" where
  "select_channels g =
     and_then (read_global g) (\<lambda>folder.
       if py_str_less folder ''20230322'' then Inr (channels_early, [0, 1, 3, 4])
       else Inr (channels_late, [0, 1, 4, 6]))"

text \<open>Lines 312 to 315: the grid spacing of the calcium imaging volume.\<close>

definition select_calc_scale :: "string option \<Rightarrow> error + real list" where
  "select_calc_scale g =
     and_then (read_global g) (\<lambda>folder.
       if py_str_less folder ''20230506'' then Inr [3208 / 10000, 3208 / 10000, 5 / 2]
       else Inr [1604 / 10000, 1604 / 10000, 3])"

text \<open>\<open>[channels[i] for i in RGBW_channels]\<close>.\<close>

fun pick :: "'a list \<Rightarrow> nat list \<Rightarrow> error + 'a list" where
  "pick xs [] = Inr []"
| "pick xs (i # is) =
     and_then (py_index xs i) (\<lambda>x. and_then (pick xs is) (\<lambda>r. Inr (x # r)))"

subsection \<open>Images, the calcium series and its chunk iterator\<close>

text \<open>
  The structural images pass through the pipeline unchanged but for their axes, so an
  image array is modelled by its shape. \<open>np.transpose(a)\<close> reverses the axes;
  \<open>np.transpose(a, [2,1,0,3])\<close> needs four axes and raises \<open>ValueError\<close> otherwise.
\<close>

definition transpose_4d :: "nat list \<Rightarrow> error + nat list" where
  "transpose_4d sh =
     (if length sh = 4 then Inr [sh ! 2, sh ! 1, sh ! 0, sh ! 3] else Inl ValueError)"

record multi_channel_volume =
  mcv_name :: string
  mcv_order_optical_channels :: "string list"
  RGBW_channels :: "nat list"
  mcv_data_shape :: "nat list"
  mcv_imaging_volume :: imaging_volume

definition create_image ::
  "string \<Rightarrow> nat list \<Rightarrow> imaging_volume \<Rightarrow> string list \<Rightarrow> nat list \<Rightarrow> multi_channel_volume" where
  "create_image name data ImVol OptChanRefs rgbw =
     \<lparr> mcv_name = name, mcv_order_optical_channels = OptChanRefs, RGBW_channels = rgbw,
       mcv_data_shape = data, mcv_imaging_volume = ImVol \<rparr>"

text \<open>
  The calcium image series: its declared \<open>dimension\<close>, its imaging volume and whether
  its data is wrapped for compression. The data itself is the chunk stream, kept beside
  the series in the file written.
\<close>

record calc_series =
  cs_name :: string
  dimension :: "nat list"
  cs_imaging_volume :: imaging_volume
  compression :: bool

definition create_calc_series :: "string \<Rightarrow> imaging_volume \<Rightarrow> nat list \<Rightarrow> bool \<Rightarrow> calc_series" where
  "create_calc_series name imaging_vol dims compr =
     \<lparr> cs_name = name, dimension = dims, cs_imaging_volume = imaging_vol, compression = compr \<rparr>"

text \<open>
  Lines 323 to 328: the declared dimension \<open>[numx, numy, numz]\<close> with
  \<open>numx = page.shape[0]\<close>, \<open>numy = page.shape[1]\<close> of the first page of the calcium
  file and \<open>numz = 12\<close>. A file without pages raises \<open>IndexError\<close>.
\<close>

definition calc_dimension :: "tiff \<Rightarrow> error + nat list" where
  "calc_dimension tif =
     and_then (py_index tif 0) (\<lambda>pg. Inr [fst (p_shape pg), snd (p_shape pg), 12])"

text \<open>
  The chunk iterator built with \<open>buffer_size = 10\<close> calls \<open>next\<close> up to ten times when
  it is built, to learn the shape and type of the data, and the writer calls it until
  the stream ends. \<open>read_buffer n\<close> is the first of the two.
\<close>

fun read_buffer :: "nat \<Rightarrow> tiff \<Rightarrow> int \<Rightarrow> gen \<Rightarrow> chunk list \<times> error option \<times> gen" where
  "read_buffer 0 tif numZ g = ([], None, g)"
| "read_buffer (Suc n) tif numZ g =
     (case gen_next tif numZ g of
        (g', Yield c) \<Rightarrow> (case read_buffer n tif numZ g' of (cs, r) \<Rightarrow> (c # cs, r))
      | (g', StopIteration) \<Rightarrow> ([], None, g')
      | (g', Raise e) \<Rightarrow> ([], Some e, g'))"

definition raise_if :: "error option \<Rightarrow> error + unit" where
  "raise_if r = (case r of None \<Rightarrow> Inr () | Some e \<Rightarrow> Inl e)"

subsection \<open>The quantification table and the ROI linkage\<close>

record gce_row =
  g_X :: real
  g_Y :: real
  g_Z :: real
  g_quant :: real
  g_ID :: "string option"
  g_T :: int
  g_blob_ix :: int

text \<open>\<open>Series.unique()\<close>: the distinct values in the order of their first appearance.\<close>

fun unique :: "int list \<Rightarrow> int list" where
  "unique [] = []"
| "unique (x # xs) = x # unique (filter (\<lambda>y. y \<noteq> x) xs)"

text \<open>
  Lines 354 to 363: one block of rows per \<open>blob_ix\<close>, stacked along a new first axis.
  \<open>np.vstack\<close> raises \<open>ValueError\<close> when a block has another number of rows than the
  blocks before it.
\<close>

fun stack_blobs :: "gce_row list \<Rightarrow> int list \<Rightarrow> gce_row list list option \<Rightarrow> error + gce_row list list option" where
  "stack_blobs rows [] blobquant = Inr blobquant"
| "stack_blobs rows (idx # ids) blobquant =
     (let blobarr = filter (\<lambda>r. g_blob_ix r = idx) rows
      in case blobquant of
           None \<Rightarrow> stack_blobs rows ids (Some [blobarr])
         | Some b \<Rightarrow> if length blobarr = length (hd b)
                     then stack_blobs rows ids (Some (b @ [blobarr]))
                     else Inl ValueError)"

text \<open>
  \<open>blobquant.shape\<close> on the stacked array; with no row in the table \<open>blobquant\<close> is
  still \<open>None\<close> and the attribute access raises \<open>AttributeError\<close>.
\<close>

definition build_blobquant :: "gce_row list \<Rightarrow> error + gce_row list list" where
  "build_blobquant rows =
     and_then (stack_blobs rows (unique (map g_blob_ix rows)) None)
       (\<lambda>bq. case bq of None \<Rightarrow> Inl AttributeError | Some b \<Rightarrow> Inr b)"

text \<open>
  \<open>np.squeeze\<close> of an \<open>N \<times> 3\<close> array removes the row axis when \<open>N = 1\<close>.
\<close>

definition np_squeeze :: "real list list \<Rightarrow> positions" where
  "np_squeeze rows = (case rows of [r] \<Rightarrow> Arr1 r | _ \<Rightarrow> Arr2 rows)"

text \<open>\<open>str(t)\<close> for a non-negative integer.\<close>

fun str_nat :: "nat \<Rightarrow> string" where
  "str_nat n = (if n < 10 then [char_of (48 + n)] else str_nat (n div 10) @ [char_of (48 + n mod 10)])"

declare str_nat.simps [simp del]

text \<open>
  Lines 367 to 374: one segmentation per timepoint \<open>t\<close> in \<open>range(blobquant.shape[1])\<close>,
  from the coordinates \<open>blobquant[:,t,0:3]\<close>, the labels omitted.
\<close>

fun seg_loop ::
  "'v \<Rightarrow> 'r \<Rightarrow> gce_row list list \<Rightarrow> nat list \<Rightarrow> error + ('v, 'r) plane_segmentation list" where
  "seg_loop iv series b [] = Inr []"
| "seg_loop iv series b (t # ts) =
     and_then (create_vol_seg_centers (''Seg_tpoint_'' @ str_nat t)
                 (''Neuron segmentation for time point '' @ str_nat t @ '' in calcium image series'')
                 iv (np_squeeze (map (\<lambda>blob. [g_X (blob ! t), g_Y (blob ! t), g_Z (blob ! t)]) b))
                 None (Some series))
       (\<lambda>volseg. and_then (seg_loop iv series b ts) (\<lambda>volsegs. Inr (volseg # volsegs)))"

text \<open>
  A region of a segmentation table: the table and the row indices. The library's own
  checks of the indices are not part of this model.
\<close>

record ('v, 'r) roi_table_region =
  rtr_table :: "('v, 'r) plane_segmentation"
  region :: "nat list"

record ('v, 'r) roi_response_series =
  rrs_name :: string
  rrs_data :: "real list list"
  rois :: "('v, 'r) roi_table_region"

record ('v, 'r) ray_linkage =
  volsegs :: "('v, 'r) plane_segmentation list"
  RoiResponse :: "('v, 'r) roi_response_series"

text \<open>
  Lines 350 to 395 of \<open>process_NP_FOCO_Ray\<close>: the table stacked by blob, the
  per-timepoint segmentations, the response matrix \<open>np.transpose(blobquant[:,:,3])\<close>, the
  region over \<open>volsegs[0]\<close> and the response series.
\<close>

definition ray_linkage :: "'v \<Rightarrow> 'r \<Rightarrow> gce_row list \<Rightarrow> error + ('v, 'r) ray_linkage" where
  "ray_linkage iv series rows =
     and_then (build_blobquant rows) (\<lambda>blobquant.
     and_then (seg_loop iv series blobquant [0..<length (hd blobquant)]) (\<lambda>vsegs.
       (let gce_data = map (\<lambda>t. map (\<lambda>blob. g_quant (blob ! t)) blobquant) [0..<length (hd blobquant)]
        in and_then (py_index vsegs 0) (\<lambda>v0.
             (let rt_region = \<lparr> rtr_table = v0, region = [0..<length blobquant] \<rparr>
              in Inr \<lparr> volsegs = vsegs,
                       RoiResponse = \<lparr> rrs_name = ''SignalCalciumImResponseSeries'',
                                       rrs_data = gce_data, rois = rt_region \<rparr> \<rparr>)))))"

subsection \<open>The whole of \<open>process_NP_FOCO_Ray\<close>\<close>

record blob_row =
  b_X :: real
  b_Y :: real
  b_Z :: real
  b_ID :: "string option"

text \<open>
  What the function reads: its arguments \<open>dataset\<close> and \<open>strain\<close>, and the files under
  \<open>datapath\<close> as they load (the scale of \<open>neuroPAL_image.mat\<close>, the shapes of the two
  structural images, the rows of \<open>blobs.csv\<close>, the pages of the calcium TIFF and the
  rows of the quantification table). A file that is missing or does not load is outside
  the model.
\<close>

record ray_inputs =
  in_dataset :: string
  in_strain :: string
  in_scale :: "real list"
  in_full_comp :: "nat list"
  in_blobs :: "blob_row list"
  in_proc :: "nat list"
  in_calc :: tiff
  in_gce :: "gce_row list"

text \<open>
  The file handed to the writer, with the fields that depend on the input; fields the
  source sets to literal constants (descriptions, units, rates) are left out.
\<close>

record nwbfile =
  nwb_identifier :: string
  session_start_time :: datetime
  date_of_birth :: datetime
  strain :: string
  imaging_planes :: "imaging_volume list"
  NP_image :: multi_channel_volume
  NeuroPALImSeg :: "(imaging_volume, calc_series) plane_segmentation"
  Proc_image :: multi_channel_volume
  Calc_ImSeries :: calc_series
  Calc_data :: "chunk list"
  CalcImSeg :: "(imaging_volume, calc_series) plane_segmentation list"
  SignalDFoF :: "(imaging_volume, calc_series) roi_response_series"

definition microscope :: device where
  "microscope =
     \<lparr> dev_name = ''Spinning disk confocal'',
       dev_description = ''Leica DMi8 Inverted Microscope with Yokogawa CSU-W1 SoRA, 40x WI objective 1.1 NA'',
       dev_manufacturer = ''Leica, Yokogawa'' \<rparr>"

text \<open>The defaults of \<open>create_im_vol\<close>, filled in where a call of the source omits them.\<close>

definition im_vol ::
  "string \<Rightarrow> string \<Rightarrow> (string \<times> string \<times> string) list \<Rightarrow> real list \<Rightarrow> error + (imaging_volume \<times> string list)" where
  "im_vol name description channels gs =
     create_im_vol name microscope description channels ''head'' gs ''micrometers'' [0, 0, 0]
       ''micrometers'' ''Worm head''"

definition process_NP_FOCO_Ray :: "string option \<Rightarrow> ray_inputs \<Rightarrow> error + nwbfile" where
  "process_NP_FOCO_Ray folder_global inp =
     and_then (session_start (in_dataset inp)) (\<lambda>start.
     and_then (birth_date (in_dataset inp)) (\<lambda>dob.
     and_then (select_channels folder_global) (\<lambda>(channels, rgbw).
     and_then (im_vol ''NeuroPALImVol'' ''NeuroPAL image of C. elegans brain'' channels (in_scale inp))
       (\<lambda>(NP_ImVol, NP_OptChanRef).
     and_then (create_vol_seg_centers ''NeuroPALNeurons''
                 ''Neuron centers for multichannel volumetric image. Weight set at 1 for all voxels. Labels refers to cell ID of segmented neurons.''
                 NP_ImVol
                 (Arr2 (map (\<lambda>r. [b_X r, b_Y r, b_Z r]) (in_blobs inp)))
                 (Some (map (\<lambda>r. case b_ID r of None \<Rightarrow> [] | Some l \<Rightarrow> l) (in_blobs inp)))
                 None) (\<lambda>np_seg.
     and_then (pick channels rgbw) (\<lambda>proc_channels.
     and_then (im_vol ''ProcessedImVol'' ''Processed NeuroPAL image'' proc_channels
                 [3208 / 10000, 3208 / 10000, 3 / 4]) (\<lambda>(Proc_ImVol, Proc_OptChanRef).
     and_then (transpose_4d (in_proc inp)) (\<lambda>proc_data.
     and_then (select_calc_scale folder_global) (\<lambda>Calc_scale.
     and_then (im_vol ''CalciumImVol'' ''Imaging volume used to acquire calcium imaging data''
                 [(''GFP-GCaMP'', ''Chroma ET 525/50'', ''488-525-50m'')] Calc_scale)
       (\<lambda>(Calc_ImVol, Calc_OptChanRef).
     and_then (calc_dimension (in_calc inp)) (\<lambda>dims.
     (case read_buffer 10 (in_calc inp) 12 gen_init of (buffered, r1, g1) \<Rightarrow>
     and_then (raise_if r1) (\<lambda>u1.
     (let series = create_calc_series ''CalciumImageSeries'' Calc_ImVol dims True in
     and_then (ray_linkage Calc_ImVol series (in_gce inp)) (\<lambda>link.
     (case collect (in_calc inp) 12 g1 of (rest, r2, g2) \<Rightarrow>
     and_then (raise_if r2) (\<lambda>u2.
       Inr \<lparr> nwb_identifier = in_dataset inp,
             session_start_time = start,
             date_of_birth = dob,
             strain = in_strain inp,
             imaging_planes = [NP_ImVol, Proc_ImVol, Calc_ImVol],
             NP_image = create_image ''NeuroPALImageRaw'' (rev (in_full_comp inp)) NP_ImVol NP_OptChanRef rgbw,
             NeuroPALImSeg = np_seg,
             Proc_image = create_image ''ProcessedImage'' proc_data Proc_ImVol Proc_OptChanRef [0, 1, 2, 3],
             Calc_ImSeries = series,
             Calc_data = buffered @ rest,
             CalcImSeg = volsegs link,
             SignalDFoF = RoiResponse link \<rparr>)))))))))))))))))"

text \<open>
  The driver's loop body (lines 627 to 633): it binds the global \<open>folder\<close> and passes
  the same string as \<open>dataset\<close>.
\<close>

definition driver_step :: "ray_inputs \<Rightarrow> error + nwbfile" where
  "driver_step inp = process_NP_FOCO_Ray (Some (in_dataset inp)) inp"

section \<open>The ROI linkage of \<open>process_yemini\<close>\<close>

text \<open>
  The arrays loaded from the \<open>.mat\<close> files: a three-dimensional array (neurons by
  timepoints by coordinates) and a two-dimensional one, each by its shape and its
  entries.
\<close>

record arr3 =
  a3_shape :: "nat \<times> nat \<times> nat"
  a3_at :: "nat \<Rightarrow> nat \<Rightarrow> nat \<Rightarrow> real"

record arr2 =
  a2_shape :: "nat \<times> nat"
  a2_at :: "nat \<Rightarrow> nat \<Rightarrow> real"

text \<open>
  \<open>a[:,:,[1,0,2]]\<close>: the first two columns swapped; an array with fewer than three
  columns raises \<open>IndexError\<close>.
\<close>

definition swap_xy :: "arr3 \<Rightarrow> error + arr3" where
  "swap_xy a =
     (case a3_shape a of (N, T, C) \<Rightarrow>
        if C < 3 then Inl IndexError
        else Inr \<lparr> a3_shape = (N, T, 3), a3_at = (\<lambda>i t k. a3_at a i t ([1, 0, 2] ! k)) \<rparr>)"

text \<open>\<open>a[:,t,:]\<close> of an array with three columns, as a list of rows.\<close>

definition rows_at :: "arr3 \<Rightarrow> nat \<Rightarrow> real list list" where
  "rows_at a t = map (\<lambda>i. [a3_at a i t 0, a3_at a i t 1, a3_at a i t 2]) [0..<fst (a3_shape a)]"

text \<open>
  The two loops of lines 536 to 558, one segmentation per timepoint; they differ in the
  array and in the description only.
\<close>

fun seg_loop_arr ::
  "'v \<Rightarrow> 'r \<Rightarrow> arr3 \<Rightarrow> string \<Rightarrow> string \<Rightarrow> nat list \<Rightarrow> error + ('v, 'r) plane_segmentation list" where
  "seg_loop_arr iv series a d1 d2 [] = Inr []"
| "seg_loop_arr iv series a d1 d2 (t # ts) =
     and_then (create_vol_seg_centers (''Seg_tpoint_'' @ str_nat t) (d1 @ str_nat t @ d2)
                 iv (np_squeeze (rows_at a t)) None (Some series))
       (\<lambda>volseg. and_then (seg_loop_arr iv series a d1 d2 ts) (\<lambda>segs. Inr (volseg # segs)))"

text \<open>\<open>np.transpose\<close> of a two-dimensional array, as a list of rows.\<close>

definition transpose_rows :: "arr2 \<Rightarrow> real list list" where
  "transpose_rows a =
     map (\<lambda>i. map (\<lambda>j. a2_at a j i) [0..<fst (a2_shape a)]) [0..<snd (a2_shape a)]"

record ('v, 'r) yemini_linkage =
  y_volsegs :: "('v, 'r) plane_segmentation list"
  y_procvolsegs :: "('v, 'r) plane_segmentation list"
  y_RoiResponse :: "('v, 'r) roi_response_series"
  y_RoiResponsedNMF :: "('v, 'r) roi_response_series"

text \<open>
  Lines 531 to 598 of \<open>process_yemini\<close>: the segmentations of the raw positions
  (\<open>old_pos.mat\<close>) and of the dNMF positions (\<open>positions.mat\<close>), the response matrix
  \<open>np.transpose(activitydata)\<close>, the region of length \<open>positions.shape[0]\<close> over
  \<open>volsegs[0]\<close>, and the two response series that share it.
\<close>

definition yemini_linkage :: "'v \<Rightarrow> 'r \<Rightarrow> arr3 \<Rightarrow> arr3 \<Rightarrow> arr2 \<Rightarrow> error + ('v, 'r) yemini_linkage" where
  "yemini_linkage iv series oldpos positiondata activitydata =
     and_then (swap_xy positiondata) (\<lambda>positions.
     and_then (swap_xy oldpos) (\<lambda>raw_pos.
     and_then (seg_loop_arr iv series raw_pos ''Neuron segmentation for time point ''
                 '' in calcium image series'' [0..<fst (snd (a3_shape raw_pos))]) (\<lambda>vsegs.
     and_then (seg_loop_arr iv series positions ''Neuron positions for time point ''
                 '' calculated via dNMF'' [0..<fst (snd (a3_shape positions))]) (\<lambda>procvolsegs.
       (let gce_data = transpose_rows activitydata
        in and_then (py_index vsegs 0) (\<lambda>v0.
             (let rt_region = \<lparr> rtr_table = v0, region = [0..<fst (a3_shape positions)] \<rparr>
              in Inr \<lparr> y_volsegs = vsegs,
                       y_procvolsegs = procvolsegs,
                       y_RoiResponse = \<lparr> rrs_name = ''SignalCalciumImResponseSeries'',
                                         rrs_data = gce_data, rois = rt_region \<rparr>,
                       y_RoiResponsedNMF = \<lparr> rrs_name = ''dNMFCalciumImResponseSeries'',
                                             rrs_data = gce_data, rois = rt_region \<rparr> \<rparr>)))))))"

(*DEFS-END*)

section \<open>Properties of the string functions and the channel parser\<close>


















section \<open>Properties of the segmentation builder and the chunked reader\<close>

lemma add_rois_rows:
  "list_all (\<lambda>r. length r = 3) rows \<Longrightarrow>
   add_rois rows acc =
     Inr (acc @ map (\<lambda>r. [\<lparr> vx = np_uint (r ! 0), vy = np_uint (r ! 1), vz = np_uint (r ! 2), weight = 1 \<rparr>]) rows)"
  by (induction rows arbitrary: acc) (simp_all add: py_index_def)

lemma np_uint_in_range:
  assumes "0 \<le> x" "x < 2 ^ 64"
  shows "uint (np_uint x) = \<lfloor>x\<rfloor>"
proof -
  have "0 \<le> \<lfloor>x\<rfloor>" using assms by simp
  moreover have "\<lfloor>x\<rfloor> < 2 ^ 64" using assms by (simp add: floor_less_iff)
  ultimately show ?thesis
    using assms by (simp add: np_uint_def uint_word_of_int take_bit_int_eq_self)
qed

lemma assign_plane_shape:
  "assign_plane tp j pg = Inr tp' \<Longrightarrow> t_shape tp' = t_shape tp"
  by (auto simp: assign_plane_def split: prod.splits if_splits)

lemma fill_planes_shape:
  "fill_planes tif i numZ js tp = Inr tp' \<Longrightarrow> t_shape tp' = t_shape tp"
proof (induction js arbitrary: tp)
  case Nil
  then show ?case by simp
next
  case (Cons j js)
  then show ?case
    by (auto split: sum.splits dest: assign_plane_shape)
qed

lemma build_chunk_shape:
  "build_chunk tif numZ sh i = Inr c \<Longrightarrow> c_shape c = (snd sh, fst sh, numZ)"
  by (auto simp: build_chunk_def astype_uint16_def np_zeros_def split: sum.splits dest: fill_planes_shape)

lemma assign_plane_ok:
  "t_shape tp = (X, Y, Z) \<Longrightarrow> j < Z \<Longrightarrow> p_shape pg = (Y, X) \<Longrightarrow> \<exists>tp'. assign_plane tp j pg = Inr tp'"
  by (simp add: assign_plane_def)

lemma fill_planes_ok:
  assumes "t_shape tp = (X, Y, Z)"
    and "list_all (\<lambda>j. j < Z \<and> i * numZ + j < length tif \<and> p_shape (tif ! (i * numZ + j)) = (Y, X)) js"
  shows "\<exists>tp'. fill_planes tif i numZ js tp = Inr tp'"
  using assms
proof (induction js arbitrary: tp)
  case Nil
  then show ?case by simp
next
  case (Cons j js)
  from Cons.prems obtain tp1 where a: "assign_plane tp j (tif ! (i * numZ + j)) = Inr tp1"
    using assign_plane_ok[of tp X Y Z j "tif ! (i * numZ + j)"] by auto
  then have "t_shape tp1 = (X, Y, Z)"
    using Cons.prems(1) assign_plane_shape by metis
  then obtain tp' where "fill_planes tif i numZ js tp1 = Inr tp'"
    using Cons.IH[of tp1] Cons.prems(2) by auto
  then show ?case using a Cons.prems(2) by (simp add: py_index_def)
qed

lemma build_chunk_ok:
  assumes "Suc i * numZ \<le> length tif"
    and "list_all (\<lambda>p. p_shape p = sh) tif"
  shows "\<exists>c. build_chunk tif numZ sh i = Inr c"
proof -
  have "list_all (\<lambda>j. j < numZ \<and> i * numZ + j < length tif \<and> p_shape (tif ! (i * numZ + j)) = (fst sh, snd sh)) [0..<numZ]"
    using assms by (auto simp: list_all_iff)
  from fill_planes_ok[OF _ this, of "np_zeros (snd sh, fst sh, numZ)"]
  show ?thesis by (auto simp: build_chunk_def np_zeros_def)
qed


lemma gen_next_loop: "pc g \<noteq> Finished \<Longrightarrow> gen_next tif numZ g = loop_from tif numZ (next_index g)"
  by (simp add: gen_next_def next_index_def split: gen_pc.splits)

lemma collect_count_aux:
  assumes z: "0 < numZ" and ne: "tif \<noteq> []"
    and sh: "list_all (\<lambda>p. p_shape p = p_shape (hd tif)) tif"
  shows "pc g \<noteq> Finished \<Longrightarrow> next_index g \<le> length tif div nat numZ \<Longrightarrow> n = length tif div nat numZ - next_index g \<Longrightarrow>
     \<exists>cs. collect tif numZ g = (cs, None, \<lparr> pc = Finished, tif_open = False \<rparr>) \<and> length cs = n"
proof (induction n arbitrary: g)
  case 0
  have T: "timepoints tif numZ = Inr (int (length tif div nat numZ))"
    using z by (simp add: timepoints_def zdiv_int)
  have p0: "py_index tif 0 = Inr (hd tif)"
    using ne by (cases tif) (simp_all add: py_index_def)
  have "gen_next tif numZ g = (\<lparr> pc = Finished, tif_open = False \<rparr>, StopIteration)"
    using 0 by (simp add: gen_next_loop loop_from_def T p0)
  then show ?case
    by (subst collect.simps) simp
next
  case (Suc n)
  let ?k = "next_index g"
  have T: "timepoints tif numZ = Inr (int (length tif div nat numZ))"
    using z by (simp add: timepoints_def zdiv_int)
  have k: "?k < length tif div nat numZ" using Suc.prems by simp
  have "Suc ?k * nat numZ \<le> (length tif div nat numZ) * nat numZ"
    using k by (intro mult_le_mono1) simp
  also have "\<dots> \<le> length tif"
    by simp
  finally have "Suc ?k * nat numZ \<le> length tif" .
  then obtain c where c: "build_chunk tif (nat numZ) (p_shape (hd tif)) ?k = Inr c"
    using build_chunk_ok sh by blast
  have p0: "py_index tif 0 = Inr (hd tif)"
    using ne by (cases tif) (simp_all add: py_index_def)
  have g1: "gen_next tif numZ g = (\<lparr> pc = Suspended ?k, tif_open = True \<rparr>, Yield c)"
    using Suc.prems(1) k c by (simp add: gen_next_loop loop_from_def T p0)
  let ?g' = "\<lparr> pc = Suspended ?k, tif_open = True \<rparr>"
  have "\<exists>cs. collect tif numZ ?g' = (cs, None, \<lparr> pc = Finished, tif_open = False \<rparr>) \<and> length cs = n"
    using Suc.prems k by (intro Suc.IH) (simp_all add: next_index_def)
  then obtain cs where "collect tif numZ ?g' = (cs, None, \<lparr> pc = Finished, tif_open = False \<rparr>)" "length cs = n"
    by blast
  then show ?case
    using g1 by (subst collect.simps) simp
qed

lemma collect_shapes:
  "collect tif numZ g = (cs, r) \<Longrightarrow>
     list_all (\<lambda>c. c_shape c = (snd (p_shape (hd tif)), fst (p_shape (hd tif)), nat numZ)) cs"
proof (induction tif numZ g arbitrary: cs r rule: collect.induct)
  case (1 tif numZ g)
  obtain g' res where n: "gen_next tif numZ g = (g', res)" by (cases "gen_next tif numZ g")
  show ?case
  proof (cases res)
    case (Yield c)
    obtain cs' r' where c': "collect tif numZ g' = (cs', r')" by (cases "collect tif numZ g'")
    have sh: "c_shape c = (snd (p_shape (hd tif)), fst (p_shape (hd tif)), nat numZ)"
      using n Yield
      by (cases tif) (auto simp: gen_next_def loop_from_def py_index_def split: gen_pc.splits sum.splits if_splits dest: build_chunk_shape)
    have "list_all (\<lambda>c. c_shape c = (snd (p_shape (hd tif)), fst (p_shape (hd tif)), nat numZ)) cs'"
      using "1.IH"[OF n[symmetric] Yield c'] .
    moreover have "cs = c # cs'"
      using "1.prems" n Yield c' by (subst (asm) collect.simps) simp
    ultimately show ?thesis using sh by simp
  next
    case StopIteration
    then show ?thesis using "1.prems" n by (subst (asm) collect.simps) simp
  next
    case (Raise e)
    then show ?thesis using "1.prems" n by (subst (asm) collect.simps) simp
  qed
qed

section \<open>The claims about the channel parser\<close>







section \<open>The claims about the segmentation builder\<close>

lemma create_vol_seg_centers_rows:
  "list_all (\<lambda>r. length r = 3) rows \<Longrightarrow>
   create_vol_seg_centers name description iv (Arr2 rows) labels ref =
     Inr \<lparr> ps_name = name, ps_description = description, imaging_plane = iv,
           reference_images = ref,
           voxel_mask = map (\<lambda>r. [\<lparr> vx = np_uint (r ! 0), vy = np_uint (r ! 1), vz = np_uint (r ! 2), weight = 1 \<rparr>]) rows,
           ID_labels = labels \<rparr>"
  by (cases labels) (simp_all add: create_vol_seg_centers_def roi_loop_def add_rois_rows)

text \<open>
  Claim C2 places ROI \<open>i\<close> at the rounded coordinates of row \<open>i\<close>. \<open>np.uint\<close>
  drops the fraction instead: the row \<open>(2.7, 3.6, 0.9)\<close> gives the voxel
  \<open>(2, 3, 0)\<close>, where rounding gives \<open>(3, 4, 1)\<close>.
\<close>
theorem roi_coordinates_truncated:
  "map_sum id voxel_mask
     (create_vol_seg_centers ''Seg_tpoint_0'' ''Neuron segmentation'' () (Arr2 [[27/10, 36/10, 9/10]]) None (None :: unit option))
     = Inr [[\<lparr> vx = 2, vy = 3, vz = 0, weight = 1 \<rparr>]]
   \<and> (round (27/10 :: real), round (36/10 :: real), round (9/10 :: real)) = (3, 4, 1)"
  by (simp add: create_vol_seg_centers_def roi_loop_def py_index_def np_uint_def round_def)

text \<open>
  Claim C2, amended. For every \<open>N \<times> 3\<close> coordinate array the builder returns a
  segmentation (with the labels omitted, as in the per-timepoint calls), and whenever it
  returns one, with or without labels, the ROI list has exactly \<open>N\<close> entries and ROI
  \<open>i\<close> is the single voxel of weight 1 at the coordinates of row \<open>i\<close> converted by
  \<open>np.uint\<close>: for a coordinate \<open>0 \<le> x < 2^64\<close> that is \<open>x\<close> with its fraction
  dropped. Each call depends on its own array only, so this holds for every timepoint
  independently.
\<close>
theorem roi_order_preserved:
  assumes "list_all (\<lambda>r. length r = 3) rows"
  shows "(\<exists>vs. create_vol_seg_centers name description iv (Arr2 rows) None ref = Inr vs)
       \<and> (\<forall>labels vs. create_vol_seg_centers name description iv (Arr2 rows) labels ref = Inr vs \<longrightarrow>
            length (voxel_mask vs) = length rows
            \<and> (\<forall>i<length rows. voxel_mask vs ! i =
                 [\<lparr> vx = np_uint (rows ! i ! 0), vy = np_uint (rows ! i ! 1),
                    vz = np_uint (rows ! i ! 2), weight = 1 \<rparr>]))
       \<and> (\<forall>x. 0 \<le> x \<and> x < 2 ^ 64 \<longrightarrow> uint (np_uint x) = \<lfloor>x\<rfloor>)"
  using assms by (auto simp: create_vol_seg_centers_rows np_uint_in_range)

theorem roi_order_preserved_witness:
  "map_sum id voxel_mask
     (create_vol_seg_centers ''Seg_tpoint_0'' ''Neuron segmentation'' () (Arr2 [[5/2, 7, 1], [40, 3, 29/10]]) None (None :: unit option))
     = Inr [[\<lparr> vx = 2, vy = 7, vz = 1, weight = 1 \<rparr>], [\<lparr> vx = 40, vy = 3, vz = 2, weight = 1 \<rparr>]]"
proof -
  have h: "list_all (\<lambda>r. length r = 3) [[5/2, 7, 1], [40, 3, 29/10 :: real]]" by simp
  from roi_order_preserved[OF h, of "''Seg_tpoint_0''" "''Neuron segmentation''" "()" "None :: unit option"]
  obtain vs where v: "create_vol_seg_centers ''Seg_tpoint_0'' ''Neuron segmentation'' () (Arr2 [[5/2, 7, 1], [40, 3, 29/10]]) None (None :: unit option) = Inr vs"
    and l: "length (voxel_mask vs) = 2"
    and n: "\<forall>i<2. voxel_mask vs ! i =
                 [\<lparr> vx = np_uint ([[5/2, 7, 1], [40, 3, 29/10]] ! i ! 0), vy = np_uint ([[5/2, 7, 1], [40, 3, 29/10]] ! i ! 1),
                    vz = np_uint ([[5/2, 7, 1], [40, 3, 29/10]] ! i ! 2), weight = 1 \<rparr>]"
    by auto
  from n have "voxel_mask vs ! 0 = [\<lparr> vx = 2, vy = 7, vz = 1, weight = 1 \<rparr>]"
    and "voxel_mask vs ! 1 = [\<lparr> vx = 40, vy = 3, vz = 2, weight = 1 \<rparr>]"
    by (simp_all add: np_uint_def)
  with l have "voxel_mask vs = [[\<lparr> vx = 2, vy = 7, vz = 1, weight = 1 \<rparr>], [\<lparr> vx = 40, vy = 3, vz = 2, weight = 1 \<rparr>]]"
    by (cases "voxel_mask vs"; cases "tl (voxel_mask vs)") auto
  with v show ?thesis by simp
qed

text \<open>
  Claim C6 expects an empty-string label for every ROI when the labels are omitted. The
  list of empty strings is bound to the local variable only: the segmentation returned
  has no \<open>ID_labels\<close> column at all, while a call with labels has one.
\<close>
theorem omitted_labels_leave_no_column:
  "map_sum id ID_labels
     (create_vol_seg_centers ''Seg_tpoint_0'' ''Neuron segmentation'' () (Arr2 [[1, 2, 3]]) None (None :: unit option))
     = Inr None
   \<and> map_sum id ID_labels
     (create_vol_seg_centers ''Seg_tpoint_0'' ''Neuron segmentation'' () (Arr2 [[1, 2, 3]]) (Some [''AVAL'']) (None :: unit option))
     = Inr (Some [''AVAL''])"
  by (simp add: create_vol_seg_centers_def roi_loop_def py_index_def)

section \<open>The claims about the chunked reader\<close>



lemma iter_calc_tiff_count:
  assumes "0 < numZ" "tif \<noteq> []" "list_all (\<lambda>p. p_shape p = p_shape (hd tif)) tif"
  shows "\<exists>cs. iter_calc_tiff tif numZ = (cs, None, \<lparr> pc = Finished, tif_open = False \<rparr>)
            \<and> length cs = length tif div nat numZ"
  using collect_count_aux[OF assms, of gen_init "length tif div nat numZ"]
  by (simp add: iter_calc_tiff_def gen_init_def next_index_def)

lemma iter_calc_tiff_zero:
  "iter_calc_tiff tif 0 = ([], Some ZeroDivisionError, \<lparr> pc = Finished, tif_open = True \<rparr>)"
  unfolding iter_calc_tiff_def
  by (subst collect.simps) (simp add: gen_next_def gen_init_def loop_from_def timepoints_def)

text \<open>
  Claim C1 says the reader fails with a shape mismatch when the page count is not a
  multiple of \<open>Z\<close>. With three pages and \<open>Z = 2\<close> it yields one chunk and ends
  normally: the third page is never read.
\<close>
theorem reader_drops_trailing_pages:
  "length (replicate 3 (blank_page 1 1)) mod 2 \<noteq> 0
   \<and> fst (snd (iter_calc_tiff (replicate 3 (blank_page 1 1)) 2)) = None
   \<and> length (fst (iter_calc_tiff (replicate 3 (blank_page 1 1)) 2)) = 1"
  using iter_calc_tiff_count[of 2 "replicate 3 (blank_page 1 1)"]
  by (auto simp: list_all_iff)

text \<open>
  Claim C1, amended. For \<open>Z > 0\<close> and a source of at least one page whose pages all
  have the shape of the first, the reader yields exactly \<open>totalPages div Z\<close> chunks
  (the integer quotient, rounded down) and then ends normally with its file closed,
  whether or not \<open>Z\<close> divides \<open>totalPages\<close>: the \<open>totalPages mod Z\<close> trailing
  pages are dropped without an error. The only arithmetic failure is \<open>Z = 0\<close>, which
  raises \<open>ZeroDivisionError\<close>.
\<close>
theorem reader_chunk_count:
  assumes "0 < numZ" "tif \<noteq> []" "list_all (\<lambda>p. p_shape p = p_shape (hd tif)) tif"
  shows "(\<exists>cs. iter_calc_tiff tif numZ = (cs, None, \<lparr> pc = Finished, tif_open = False \<rparr>)
            \<and> int (length cs) = int (length tif) div numZ)
       \<and> fst (snd (iter_calc_tiff tif 0)) = Some ZeroDivisionError"
proof -
  from iter_calc_tiff_count[OF assms] obtain cs where
    c: "iter_calc_tiff tif numZ = (cs, None, \<lparr> pc = Finished, tif_open = False \<rparr>)"
    and l: "length cs = length tif div nat numZ" by blast
  have "int (length cs) = int (length tif) div numZ"
    using l assms(1) by (simp add: zdiv_int)
  with c show ?thesis by (simp add: iter_calc_tiff_zero)
qed

theorem reader_chunk_count_witness:
  "length (fst (iter_calc_tiff (replicate 7 (blank_page 2 3)) 3)) = 2
   \<and> snd (iter_calc_tiff (replicate 7 (blank_page 2 3)) 3) = (None, \<lparr> pc = Finished, tif_open = False \<rparr>)"
proof -
  have h: "(0::int) < 3" "replicate 7 (blank_page 2 3) \<noteq> []"
    "list_all (\<lambda>p. p_shape p = p_shape (hd (replicate 7 (blank_page 2 3)))) (replicate 7 (blank_page 2 3))"
    by (simp_all add: list_all_iff)
  from reader_chunk_count[OF h] show ?thesis by auto
qed

text \<open>
  Claim C8 has the file handle released on every exit path. \<open>tif.close()\<close> is the
  statement after the loop, so only normal completion reaches it. When a page of another
  shape makes the body raise \<open>ValueError\<close>, the generator ends with the handle open;
  when the consumer closes the generator suspended at its first \<open>yield\<close>, it ends
  with the handle open as well.
\<close>
theorem reader_handle_left_open:
  "gen_next [blank_page 1 1, blank_page 2 2] 2 gen_init
     = (\<lparr> pc = Finished, tif_open = True \<rparr>, Raise ValueError)
   \<and> fst (gen_next [blank_page 1 1, blank_page 1 1] 1 gen_init) = \<lparr> pc = Suspended 0, tif_open = True \<rparr>
   \<and> gen_close \<lparr> pc = Suspended 0, tif_open = True \<rparr> = \<lparr> pc = Finished, tif_open = True \<rparr>"
proof -
  have u: "[0..<2] = [0, Suc 0]"
    by (simp add: numeral_2_eq_2)
  show ?thesis
    by (simp add: gen_next_def gen_init_def gen_close_def loop_from_def timepoints_def py_index_def
          build_chunk_def np_zeros_def assign_plane_def blank_page_def u)
qed


subsection \<open>Sequencing of fallible steps\<close>

lemma and_then_Inr [simp]: "and_then (Inr x) f = f x"
  by (simp add: and_then_def)

lemma and_then_Inl [simp]: "and_then (Inl e) f = Inl e"
  by (simp add: and_then_def)

lemma and_then_eq_Inr:
  "and_then m f = Inr y \<longleftrightarrow> (\<exists>x. m = Inr x \<and> f x = Inr y)"
  by (cases m) simp_all

subsection \<open>C4: axis order of the calcium chunks\<close>

text \<open>
  Claim C4 (code bug).  The claim says that every emitted volume is indexed by width, height and
  plane, and the sibling path \<open>process_yemini\<close> and the reader itself agree: a chunk has the
  shape \<open>(page.shape[1], page.shape[0], numZ)\<close>.  The dimension that \<open>process_NP_FOCO_Ray\<close>
  declares for the same series (lines 314 to 316) is \<open>[page.shape[0], page.shape[1], 12]\<close>, the
  first two axes in the opposite order.  On a file of twelve pages of shape \<open>(2, 3)\<close> the reader
  yields one chunk of shape \<open>(3, 2, 12)\<close> while the declared dimension is \<open>[2, 3, 12]\<close>.
\<close>
theorem chunk_shape_swapped:
  "map c_shape (fst (iter_calc_tiff (replicate 12 (blank_page 2 3)) 12)) = [(3, 2, 12)]
   \<and> calc_dimension (replicate 12 (blank_page 2 3)) = Inr [2, 3, 12]"
proof -
  have h: "(0::int) < 12" "replicate 12 (blank_page 2 3) \<noteq> []"
    "list_all (\<lambda>p. p_shape p = p_shape (hd (replicate 12 (blank_page 2 3)))) (replicate 12 (blank_page 2 3))"
    by (simp_all add: list_all_iff)
  from iter_calc_tiff_count[OF h] obtain cs where
    c: "iter_calc_tiff (replicate 12 (blank_page 2 3)) 12 = (cs, None, \<lparr> pc = Finished, tif_open = False \<rparr>)"
    and l: "length cs = 1" by auto
  from c have "list_all (\<lambda>c. c_shape c = (3, 2, 12)) cs"
    using collect_shapes[of "replicate 12 (blank_page 2 3)" 12 gen_init cs]
    by (simp add: iter_calc_tiff_def blank_page_def)
  with l have "map c_shape cs = [(3, 2, 12)]"
    by (cases cs) auto
  with c show ?thesis
    by (simp add: calc_dimension_def py_index_def blank_page_def)
qed

subsection \<open>The segmentation loop\<close>

lemma seg_of_squeezed:
  assumes "create_vol_seg_centers name d iv (np_squeeze rows) labels ref = Inr vs"
    and "list_all (\<lambda>r. length r = 3) rows"
  shows "voxel_mask vs = map (\<lambda>r. [\<lparr> vx = np_uint (r ! 0), vy = np_uint (r ! 1), vz = np_uint (r ! 2), weight = 1 \<rparr>]) rows"
proof (cases "\<exists>r. rows = [r]")
  case True
  then obtain r where r: "rows = [r]" by blast
  with assms(2) have "r \<noteq> []" by auto
  with assms(1) r show ?thesis
    by (simp add: np_squeeze_def create_vol_seg_centers_def roi_loop_def)
next
  case False
  then have "np_squeeze rows = Arr2 rows"
    by (auto simp: np_squeeze_def split: list.splits)
  with assms show ?thesis
    by (auto simp: create_vol_seg_centers_rows)
qed

lemma seg_loop_result:
  "seg_loop iv series b ts = Inr vs \<Longrightarrow>
     length vs = length ts \<and>
     (\<forall>k<length ts. voxel_mask (vs ! k) =
        map (\<lambda>blob. [\<lparr> vx = np_uint (g_X (blob ! (ts ! k))), vy = np_uint (g_Y (blob ! (ts ! k))),
                        vz = np_uint (g_Z (blob ! (ts ! k))), weight = 1 \<rparr>]) b)"
proof (induction ts arbitrary: vs)
  case Nil
  then show ?case by simp
next
  case (Cons t ts)
  from Cons.prems obtain v vs' where
    v: "create_vol_seg_centers (''Seg_tpoint_'' @ str_nat t)
          (''Neuron segmentation for time point '' @ str_nat t @ '' in calcium image series'')
          iv (np_squeeze (map (\<lambda>blob. [g_X (blob ! t), g_Y (blob ! t), g_Z (blob ! t)]) b))
          None (Some series) = Inr v"
    and r: "seg_loop iv series b ts = Inr vs'" and e: "vs = v # vs'"
    by (auto simp: and_then_eq_Inr)
  have m: "voxel_mask v = map (\<lambda>blob. [\<lparr> vx = np_uint (g_X (blob ! t)), vy = np_uint (g_Y (blob ! t)),
                        vz = np_uint (g_Z (blob ! t)), weight = 1 \<rparr>]) b"
    using seg_of_squeezed[OF v] by (simp add: list_all_iff comp_def)
  from Cons.IH[OF r] m e show ?case
    by (auto simp: nth_Cons split: nat.splits)
qed

(*THMS-END*)

end
